theory Spec2Isabelle
  imports Main
begin

section \<open>The grammar interpreter of src/svg-parser/syntax-string-parser.ts\<close>

text \<open>
  The TypeScript is modelled with the values it has when it runs. Two calls inside
  \<^verbatim>\<open>processTokenValidator\<close> pass their arguments in an order that differs from the
  parameter lists of the functions they call, and two destructurings read properties that
  no result object has. JavaScript neither rejects nor repairs this: a parameter that is
  not passed is \<^verbatim>\<open>undefined\<close>, a property that does not exist reads as
  \<^verbatim>\<open>undefined\<close>, and arithmetic on \<^verbatim>\<open>undefined\<close> gives \<^verbatim>\<open>NaN\<close>.
  The model therefore carries these values explicitly.
\<close>

subsection \<open>JavaScript values that reach an index position\<close>

datatype jsnum = Undefined | NaN | Num int

text \<open>\<^verbatim>\<open>a + b\<close> and \<^verbatim>\<open>a - b\<close> on numbers; \<^verbatim>\<open>undefined\<close> converts to \<^verbatim>\<open>NaN\<close>,
  and \<^verbatim>\<open>NaN\<close> absorbs.\<close>

fun js_plus :: "jsnum \<Rightarrow> jsnum \<Rightarrow> jsnum" where
  "js_plus (Num a) (Num b) = Num (a + b)"
| "js_plus _ _ = NaN"

fun js_minus :: "jsnum \<Rightarrow> jsnum \<Rightarrow> jsnum" where
  "js_minus (Num a) (Num b) = Num (a - b)"
| "js_minus _ _ = NaN"

text \<open>\<^verbatim>\<open>a >= b\<close>: every comparison with \<^verbatim>\<open>NaN\<close> (and so with \<^verbatim>\<open>undefined\<close>) is false.\<close>

fun js_ge :: "jsnum \<Rightarrow> jsnum \<Rightarrow> bool" where
  "js_ge (Num a) (Num b) = (b \<le> a)"
| "js_ge _ _ = False"

text \<open>\<^verbatim>\<open>syntaxString.slice(currentIndex)\<close>: \<^verbatim>\<open>undefined\<close> and \<^verbatim>\<open>NaN\<close> count as 0,
  a negative index counts from the end of the string.\<close>

fun slice :: "string \<Rightarrow> jsnum \<Rightarrow> string" where
  "slice s (Num k) =
     (if k < 0 then drop (nat (max (int (length s) + k) 0)) s else drop (nat k) s)"
| "slice s _ = s"

subsection \<open>Grammar model\<close>

datatype TokenProcessorOptionTypes = ZERO_OR_MORE | ONE_OR_MORE | ZERO_OR_ONE

text \<open>The terminals of the repository's grammars are single character classes
  (\<^verbatim>\<open>/[0-9]/\<close>, \<^verbatim>\<open>/[eE]/\<close>, \<^verbatim>\<open>/ /\<close>, ...): a \<open>RegExp\<close> is the list of the
  characters of its class.\<close>

datatype RegExp = CharClass "char list"

text \<open>\<^verbatim>\<open>TokenValidator = TokenTypes | RegExp | TokenValidatorOptionsConfig | TokenValidator[]\<close>:
  a rule name (a string), a terminal, \<^verbatim>\<open>{ value, option }\<close>, or an array.\<close>

datatype TokenValidator =
    RuleRef string
  | Terminal RegExp
  | Quantified TokenValidator TokenProcessorOptionTypes
  | Sequence "TokenValidator list"

record GrammarMapTokenTypeDescriptor =
  options :: "TokenValidator list"

text \<open>The map holds the grammar object's own keys.\<close>

type_synonym BaseGrammarMapType = "string \<rightharpoonup> GrammarMapTokenTypeDescriptor"

text \<open>A grammar map is a plain JavaScript object, so \<^verbatim>\<open>grammarMap[name]\<close> also
  answers to the property names that every object inherits from \<^verbatim>\<open>Object.prototype\<close>.
  The inherited values are functions (and, for \<^verbatim>\<open>__proto__\<close>, the prototype object
  itself); none of them has a property \<^verbatim>\<open>options\<close>.\<close>

definition Object_prototype_properties :: "string list" where
  "Object_prototype_properties =
     [''constructor'', ''hasOwnProperty'', ''isPrototypeOf'', ''propertyIsEnumerable'',
      ''toLocaleString'', ''toString'', ''valueOf'', ''__proto__'',
      ''__defineGetter__'', ''__defineSetter__'', ''__lookupGetter__'', ''__lookupSetter__'']"

record Grammar =
  entry :: string
  map :: BaseGrammarMapType

subsection \<open>AST model\<close>

text \<open>The \<^verbatim>\<open>tokenType\<close> parameter is declared a rule name, but the quantifier branch of
  \<^verbatim>\<open>processTokenValidator\<close> passes its \<^verbatim>\<open>currentIndex\<close> in that position.\<close>

datatype tokenType = Name string | Index jsnum

text \<open>\<^verbatim>\<open>AST.value\<close> is a matched text or a list of nodes; \<open>NoValue\<close> is
  \<^verbatim>\<open>undefined\<close>. (The declared type also allows a single child node; no code path
  builds one.)\<close>

datatype 'a astValue = Text string | Children "'a list" | NoValue

text \<open>What a processor returns when it is truthy: an object
  \<^verbatim>\<open>{ startIndex, endIndex, tokenType, value }\<close>, or, from the array branch of
  \<^verbatim>\<open>processTokenValidator\<close>, the bare \<^verbatim>\<open>resultList\<close> array.\<close>

datatype AST =
    Node jsnum jsnum tokenType "AST astValue"
  | ResultList "AST list"

text \<open>Property reads on a result. An array has no \<^verbatim>\<open>startIndex\<close> or \<^verbatim>\<open>endIndex\<close>;
  neither an AST object nor an array has \<^verbatim>\<open>newCurrentIndex\<close> or
  \<^verbatim>\<open>consumedString\<close>.\<close>

fun startIndex :: "AST \<Rightarrow> jsnum" where
  "startIndex (Node si ei tt v) = si"
| "startIndex (ResultList rs) = Undefined"

fun endIndex :: "AST \<Rightarrow> jsnum" where
  "endIndex (Node si ei tt v) = ei"
| "endIndex (ResultList rs) = Undefined"

definition newCurrentIndex :: "AST \<Rightarrow> jsnum" where
  "newCurrentIndex r = Undefined"

definition consumedString :: "AST \<Rightarrow> AST astValue" where
  "consumedString r = NoValue"

subsection \<open>Outcomes\<close>

text \<open>A call throws (reading a property of \<^verbatim>\<open>undefined\<close> is a \<open>TypeError\<close>), returns
  \<^verbatim>\<open>false\<close>, or returns a truthy result. A call that does not return within the fuel
  it is given is \<open>None\<close>.\<close>

datatype error = TypeError

datatype outcome = Throws error | Failure | Success AST

subsection \<open>PROCESS\_REGEX\<close>

text \<open>\<^verbatim>\<open>stringFromIndex.match(tokenValidator)\<close> for a character class: the first
  character of the string that is in the class, wherever it stands; \<open>None\<close> is
  \<^verbatim>\<open>null\<close>. The match of a character class is one character, never empty, so
  \<^verbatim>\<open>match[0] || ''\<close> is \<^verbatim>\<open>match[0]\<close>.\<close>

fun string_match :: "string \<Rightarrow> RegExp \<Rightarrow> string option" where
  "string_match [] re = None"
| "string_match (c # cs) (CharClass cls) =
     (if c \<in> set cls then Some [c] else string_match cs (CharClass cls))"

text \<open>What a caller passes in the \<^verbatim>\<open>tokenValidator\<close> position of
  \<^verbatim>\<open>PROCESS_REGEX\<close>: a validator, or (from \<^verbatim>\<open>processTokenValidator\<close>) an index.\<close>

datatype jsarg = ArgValidator TokenValidator | ArgIndex jsnum

fun PROCESS_REGEX :: "string \<Rightarrow> tokenType \<Rightarrow> jsarg \<Rightarrow> 'g \<Rightarrow> jsnum \<Rightarrow> AST option" where
  "PROCESS_REGEX syntaxString tt (ArgValidator (Terminal re)) gm currentIndex =
     (case string_match (slice syntaxString currentIndex) re of
        Some m \<Rightarrow>
          Some (Node currentIndex
                  (js_plus currentIndex (Num (int (length m) - 1))) tt (Text m))
      | None \<Rightarrow> None)"
| "PROCESS_REGEX syntaxString tt other gm currentIndex = None"

subsection \<open>processTokenValidator and the quantifier processors\<close>

text \<open>
  The first argument is fuel: \<open>processTokenValidator\<close> spends one unit on entry and each
  turn of a \<^verbatim>\<open>while (true)\<close> loop spends one.

  \<^item> \<open>sequence_loop\<close> is the \<^verbatim>\<open>for (const t of tokenValidator)\<close> of the array branch,
    with \<^verbatim>\<open>resultList\<close> as accumulator;
  \<^item> \<open>options_loop\<close> is the \<^verbatim>\<open>for (const t of options)\<close> of the rule-name branch;
  \<^item> \<open>ZERO_OR_MORE_loop\<close> and \<open>ONE_OR_MORE_loop\<close> are the two \<^verbatim>\<open>while (true)\<close>
    loops, each followed by the \<^verbatim>\<open>return\<close> of its processor, with \<^verbatim>\<open>results\<close> and
    \<^verbatim>\<open>latestCurrentIndex\<close> as state;
  \<^item> \<open>ZERO_OR_ONE_processor\<close> is the \<^verbatim>\<open>for (let i = 0; i < 2; i++)\<close> unrolled.

  The branches of \<open>processTokenValidator\<close>, in the source's order:
  \<^item> array: every member is called with the caller's \<^verbatim>\<open>currentIndex\<close>, and the
    \<^verbatim>\<open>resultList\<close> array itself is returned;
  \<^item> RegExp: the call is \<^verbatim>\<open>PROCESS_REGEX(syntaxString, tokenType, currentIndex, tokenValidator)\<close>
    against the parameters \<^verbatim>\<open>(syntaxString, tokenType, tokenValidator, _grammarMap, currentIndex)\<close>,
    so \<^verbatim>\<open>PROCESS_REGEX\<close> receives the index as its validator, the pattern as its
    grammar map and \<^verbatim>\<open>undefined\<close> as its index;
  \<^item> object: the call is \<^verbatim>\<open>optionProcessor(syntaxString, currentIndex, t)\<close> against the
    parameters \<^verbatim>\<open>(syntaxString, tokenType, tokenValidator, grammarMap, currentIndex)\<close>, so the
    processor receives the index as its \<^verbatim>\<open>tokenType\<close>, and \<^verbatim>\<open>undefined\<close> as its
    \<^verbatim>\<open>grammarMap\<close> and as its \<^verbatim>\<open>currentIndex\<close>;
  \<^item> in both, \<^verbatim>\<open>const { consumedString, newCurrentIndex } = result\<close> reads two
    properties that the result does not have;
  \<^item> string: \<^verbatim>\<open>grammarMap[tokenValidator]\<close> throws when \<^verbatim>\<open>grammarMap\<close> is
    \<^verbatim>\<open>undefined\<close>. Otherwise \<^verbatim>\<open>const { options = [] } = grammarMap[tokenValidator]\<close>
    takes the alternatives of the map's own descriptor; for a name that is not a key of the
    map but is inherited from \<^verbatim>\<open>Object.prototype\<close> it finds a value without
    \<^verbatim>\<open>options\<close>, so the default \<^verbatim>\<open>[]\<close> applies and the loop has no alternative to
    try; for any other name it destructures \<^verbatim>\<open>undefined\<close>, which throws.
\<close>

function (sequential) processTokenValidator ::
    "nat \<Rightarrow> string \<Rightarrow> tokenType \<Rightarrow> TokenValidator \<Rightarrow> BaseGrammarMapType option \<Rightarrow> jsnum
      \<Rightarrow> outcome option"
and sequence_loop ::
    "nat \<Rightarrow> string \<Rightarrow> tokenType \<Rightarrow> TokenValidator list \<Rightarrow> BaseGrammarMapType option \<Rightarrow> jsnum
      \<Rightarrow> AST list \<Rightarrow> outcome option"
and options_loop ::
    "nat \<Rightarrow> string \<Rightarrow> string \<Rightarrow> TokenValidator list \<Rightarrow> BaseGrammarMapType option \<Rightarrow> jsnum
      \<Rightarrow> outcome option"
and TOKEN_VALIDATOR_OPTION_PROCESSORS ::
    "nat \<Rightarrow> TokenProcessorOptionTypes \<Rightarrow> string \<Rightarrow> tokenType \<Rightarrow> TokenValidator
      \<Rightarrow> BaseGrammarMapType option \<Rightarrow> jsnum \<Rightarrow> outcome option"
and ZERO_OR_MORE_loop ::
    "nat \<Rightarrow> string \<Rightarrow> tokenType \<Rightarrow> TokenValidator \<Rightarrow> BaseGrammarMapType option \<Rightarrow> jsnum
      \<Rightarrow> AST list \<Rightarrow> jsnum \<Rightarrow> outcome option"
and ONE_OR_MORE_loop ::
    "nat \<Rightarrow> string \<Rightarrow> tokenType \<Rightarrow> TokenValidator \<Rightarrow> BaseGrammarMapType option \<Rightarrow> jsnum
      \<Rightarrow> AST list \<Rightarrow> jsnum \<Rightarrow> outcome option"
and ZERO_OR_ONE_processor ::
    "nat \<Rightarrow> string \<Rightarrow> tokenType \<Rightarrow> TokenValidator \<Rightarrow> BaseGrammarMapType option \<Rightarrow> jsnum
      \<Rightarrow> outcome option"
where
  "processTokenValidator 0 syntaxString tt tv grammarMap currentIndex = None"
| "processTokenValidator (Suc n) syntaxString tt (Sequence ts) grammarMap currentIndex =
     sequence_loop n syntaxString tt ts grammarMap currentIndex []"
| "processTokenValidator (Suc n) syntaxString tt (Terminal re) grammarMap currentIndex =
     (case PROCESS_REGEX syntaxString tt (ArgIndex currentIndex) re Undefined of
        Some result \<Rightarrow>
          Some (Success (Node currentIndex (js_minus (newCurrentIndex result) (Num 1)) tt
                          (consumedString result)))
      | None \<Rightarrow> Some Failure)"
| "processTokenValidator (Suc n) syntaxString tt (Quantified t option) grammarMap currentIndex =
     (case TOKEN_VALIDATOR_OPTION_PROCESSORS n option syntaxString (Index currentIndex) t
             None Undefined of
        None \<Rightarrow> None
      | Some (Throws e) \<Rightarrow> Some (Throws e)
      | Some (Success result) \<Rightarrow>
          Some (Success (Node currentIndex (js_minus (newCurrentIndex result) (Num 1)) tt
                          (consumedString result)))
      | Some Failure \<Rightarrow> Some Failure)"
| "processTokenValidator (Suc n) syntaxString tt (RuleRef name) grammarMap currentIndex =
     (case grammarMap of
        None \<Rightarrow> Some (Throws TypeError)
      | Some m \<Rightarrow>
          (case m name of
             Some d \<Rightarrow> options_loop n syntaxString name (options d) grammarMap currentIndex
           | None \<Rightarrow>
               if name \<in> set Object_prototype_properties
               then options_loop n syntaxString name [] grammarMap currentIndex
               else Some (Throws TypeError)))"

| "sequence_loop n syntaxString tt [] grammarMap currentIndex resultList =
     Some (Success (ResultList resultList))"
| "sequence_loop n syntaxString tt (t # ts) grammarMap currentIndex resultList =
     (case processTokenValidator n syntaxString tt t grammarMap currentIndex of
        None \<Rightarrow> None
      | Some (Throws e) \<Rightarrow> Some (Throws e)
      | Some Failure \<Rightarrow> Some Failure
      | Some (Success result) \<Rightarrow>
          sequence_loop n syntaxString tt ts grammarMap currentIndex (resultList @ [result]))"

| "options_loop n syntaxString name [] grammarMap currentIndex = Some Failure"
| "options_loop n syntaxString name (t # ts) grammarMap currentIndex =
     (case processTokenValidator n syntaxString (Name name) t grammarMap currentIndex of
        None \<Rightarrow> None
      | Some (Throws e) \<Rightarrow> Some (Throws e)
      | Some (Success result) \<Rightarrow> Some (Success result)
      | Some Failure \<Rightarrow> options_loop n syntaxString name ts grammarMap currentIndex)"

| "TOKEN_VALIDATOR_OPTION_PROCESSORS n ZERO_OR_MORE syntaxString tt tv grammarMap currentIndex =
     ZERO_OR_MORE_loop n syntaxString tt tv grammarMap currentIndex [] currentIndex"
| "TOKEN_VALIDATOR_OPTION_PROCESSORS n ONE_OR_MORE syntaxString tt tv grammarMap currentIndex =
     ONE_OR_MORE_loop n syntaxString tt tv grammarMap currentIndex [] currentIndex"
| "TOKEN_VALIDATOR_OPTION_PROCESSORS n ZERO_OR_ONE syntaxString tt tv grammarMap currentIndex =
     ZERO_OR_ONE_processor n syntaxString tt tv grammarMap currentIndex"

| "ZERO_OR_MORE_loop 0 syntaxString tt tv grammarMap currentIndex results latestCurrentIndex =
     None"
| "ZERO_OR_MORE_loop (Suc n) syntaxString tt tv grammarMap currentIndex results
       latestCurrentIndex =
     (case processTokenValidator n syntaxString tt tv grammarMap latestCurrentIndex of
        None \<Rightarrow> None
      | Some (Throws e) \<Rightarrow> Some (Throws e)
      | Some (Success resultAst) \<Rightarrow>
          ZERO_OR_MORE_loop n syntaxString tt tv grammarMap currentIndex
            (results @ [resultAst]) (js_plus (endIndex resultAst) (Num 1))
      | Some Failure \<Rightarrow>
          Some (Success
            (if length results > 0
             then Node currentIndex (js_minus latestCurrentIndex (Num 1)) tt (Children results)
             else Node currentIndex currentIndex tt (Text ''''))))"

| "ONE_OR_MORE_loop 0 syntaxString tt tv grammarMap currentIndex results latestCurrentIndex =
     None"
| "ONE_OR_MORE_loop (Suc n) syntaxString tt tv grammarMap currentIndex results
       latestCurrentIndex =
     (case processTokenValidator n syntaxString tt tv grammarMap latestCurrentIndex of
        None \<Rightarrow> None
      | Some (Throws e) \<Rightarrow> Some (Throws e)
      | Some (Success resultAst) \<Rightarrow>
          ONE_OR_MORE_loop n syntaxString tt tv grammarMap currentIndex
            (results @ [resultAst]) (js_plus (endIndex resultAst) (Num 1))
      | Some Failure \<Rightarrow>
          Some (if length results > 0
                then Success (Node currentIndex (js_minus latestCurrentIndex (Num 1)) tt
                                (Children results))
                else Failure))"

| "ZERO_OR_ONE_processor n syntaxString tt tv grammarMap currentIndex =
     (case processTokenValidator n syntaxString tt tv grammarMap currentIndex of
        None \<Rightarrow> None
      | Some (Throws e) \<Rightarrow> Some (Throws e)
      | Some Failure \<Rightarrow> Some (Success (Node currentIndex currentIndex tt (Text '''')))
      | Some (Success singleResult) \<Rightarrow>
          (case processTokenValidator n syntaxString tt tv grammarMap
                  (js_plus (endIndex singleResult) (Num 1)) of
             None \<Rightarrow> None
           | Some (Throws e) \<Rightarrow> Some (Throws e)
           | Some (Success second) \<Rightarrow> Some Failure
           | Some Failure \<Rightarrow> Some (Success singleResult)))"
  by pat_completeness auto

termination
  by (relation "measures
       [\<lambda>x. case x of
            Inl (Inl (n, r)) \<Rightarrow> n
          | Inl (Inr (Inl (n, r))) \<Rightarrow> n
          | Inl (Inr (Inr (n, r))) \<Rightarrow> n
          | Inr (Inl (Inl (n, r))) \<Rightarrow> n
          | Inr (Inl (Inr (n, r))) \<Rightarrow> n
          | Inr (Inr (Inl (n, r))) \<Rightarrow> n
          | Inr (Inr (Inr (n, r))) \<Rightarrow> n,
        \<lambda>x. case x of
            Inl (Inl r) \<Rightarrow> 0
          | Inl (Inr (Inl (n, s, tt, ts, r))) \<Rightarrow> Suc (length ts)
          | Inl (Inr (Inr (n, s, name, ts, r))) \<Rightarrow> Suc (length ts)
          | Inr (Inl (Inl r)) \<Rightarrow> 2
          | Inr (Inl (Inr r)) \<Rightarrow> 0
          | Inr (Inr (Inl r)) \<Rightarrow> 0
          | Inr (Inr (Inr r)) \<Rightarrow> 1]")
     auto

definition parseSyntaxString :: "nat \<Rightarrow> string \<Rightarrow> Grammar \<Rightarrow> outcome option" where
  "parseSyntaxString n syntaxString grammar =
     processTokenValidator n syntaxString (Name (entry grammar)) (RuleRef (entry grammar))
       (Some (map grammar)) (Num 0)"

subsection \<open>Kinds of outcome\<close>

text \<open>What a caller's \<^verbatim>\<open>if (result)\<close> can tell apart: the call has not returned, it
  threw, it returned \<^verbatim>\<open>false\<close>, or it returned a truthy result.\<close>

datatype kind = Pending | Thrown error | Failed | Matched

fun kind_of :: "outcome option \<Rightarrow> kind" where
  "kind_of None = Pending"
| "kind_of (Some (Throws e)) = Thrown e"
| "kind_of (Some Failure) = Failed"
| "kind_of (Some (Success a)) = Matched"

subsection \<open>Grammars used as concrete inputs\<close>

text \<open>A rule whose only alternative is a sequence of two optional terminals.\<close>

definition two_optionals :: Grammar where
  "two_optionals =
     \<lparr>entry = ''r'',
      map = [''r'' \<mapsto> \<lparr>options =
               [Sequence [Quantified (Terminal (CharClass ''a'')) ZERO_OR_ONE,
                          Quantified (Terminal (CharClass ''b'')) ZERO_OR_ONE]]\<rparr>]\<rparr>"

text \<open>A rule whose only alternative is a terminal.\<close>

definition one_terminal :: Grammar where
  "one_terminal =
     \<lparr>entry = ''r'', map = [''r'' \<mapsto> \<lparr>options = [Terminal (CharClass ''a'')]\<rparr>]\<rparr>"

text \<open>A rule whose only alternative is a repeated terminal.\<close>

definition one_star :: Grammar where
  "one_star =
     \<lparr>entry = ''r'',
      map = [''r'' \<mapsto> \<lparr>options = [Quantified (Terminal (CharClass ''a'')) ZERO_OR_MORE]\<rparr>]\<rparr>"

text \<open>A rule \<open>a\<close> whose only alternative is the rule \<open>b\<close>.\<close>

definition chain :: Grammar where
  "chain =
     \<lparr>entry = ''a'',
      map = [''a'' \<mapsto> \<lparr>options = [RuleRef ''b'']\<rparr>,
             ''b'' \<mapsto> \<lparr>options = [Quantified (Terminal (CharClass ''x'')) ZERO_OR_ONE]\<rparr>]\<rparr>"

text \<open>A rule with three alternatives. On the input \<^verbatim>\<open>"x"\<close> the first fails, and the
  second and the third both match, with different results.\<close>

definition three_alternatives :: Grammar where
  "three_alternatives =
     \<lparr>entry = ''r'',
      map = [''r'' \<mapsto> \<lparr>options =
               [Terminal (CharClass ''a''),
                Sequence [],
                Quantified (Terminal (CharClass ''a'')) ZERO_OR_ONE]\<rparr>]\<rparr>"

text \<open>A rule whose only alternative repeats the empty sequence.\<close>

definition repeat_nothing :: Grammar where
  "repeat_nothing =
     \<lparr>entry = ''r'',
      map = [''r'' \<mapsto> \<lparr>options = [Quantified (Sequence []) ONE_OR_MORE]\<rparr>]\<rparr>"

text \<open>The grammar of the repository's second source file, \<^verbatim>\<open>SVGPolygonPointsGrammar\<close>.\<close>

definition SVGPolygonPointsGrammarMap :: BaseGrammarMapType where
  "SVGPolygonPointsGrammarMap =
     [''list_of_points'' \<mapsto> \<lparr>options =
        [Sequence [Quantified (RuleRef ''wsp'') ZERO_OR_MORE,
                   Quantified (RuleRef ''coordinate_pairs'') ZERO_OR_ONE,
                   Quantified (RuleRef ''wsp'') ZERO_OR_MORE]]\<rparr>,
      ''coordinate_pairs'' \<mapsto> \<lparr>options =
        [RuleRef ''coordinate_pair'',
         Sequence [RuleRef ''coordinate_pair'', RuleRef ''comma_wsp'',
                   RuleRef ''coordinate_pairs'']]\<rparr>,
      ''coordinate_pair'' \<mapsto> \<lparr>options =
        [Sequence [RuleRef ''coordinate'', RuleRef ''comma_wsp'', RuleRef ''coordinate''],
         Sequence [RuleRef ''coordinate'', RuleRef ''negative_coordinate'']]\<rparr>,
      ''coordinate'' \<mapsto> \<lparr>options = [RuleRef ''number'']\<rparr>,
      ''number'' \<mapsto> \<lparr>options =
        [Sequence [Quantified (RuleRef ''sign'') ZERO_OR_ONE, RuleRef ''integer_constant''],
         Sequence [Quantified (RuleRef ''sign'') ZERO_OR_ONE,
                   RuleRef ''floating_point_constant'']]\<rparr>,
      ''negative_coordinate'' \<mapsto> \<lparr>options =
        [Sequence [Terminal (CharClass ''-''), RuleRef ''integer_constant''],
         Sequence [Terminal (CharClass ''-''), RuleRef ''floating_point_constant'']]\<rparr>,
      ''comma_wsp'' \<mapsto> \<lparr>options =
        [Sequence [Quantified (RuleRef ''wsp'') ONE_OR_MORE,
                   Quantified (RuleRef ''comma'') ZERO_OR_ONE,
                   Quantified (RuleRef ''wsp'') ZERO_OR_MORE],
         Sequence [RuleRef ''comma'', Quantified (RuleRef ''wsp'') ZERO_OR_MORE]]\<rparr>,
      ''comma'' \<mapsto> \<lparr>options = [Terminal (CharClass '','')]\<rparr>,
      ''integer_constant'' \<mapsto> \<lparr>options = [RuleRef ''digit_sequence'']\<rparr>,
      ''floating_point_constant'' \<mapsto> \<lparr>options =
        [Sequence [RuleRef ''fractional_constant'',
                   Quantified (RuleRef ''exponent'') ZERO_OR_ONE],
         Sequence [RuleRef ''digit_sequence'', RuleRef ''exponent'']]\<rparr>,
      ''fractional_constant'' \<mapsto> \<lparr>options =
        [Sequence [Quantified (RuleRef ''digit_sequence'') ZERO_OR_ONE,
                   Terminal (CharClass ''.''), RuleRef ''digit_sequence''],
         Sequence [RuleRef ''digit_sequence'', Terminal (CharClass ''.'')]]\<rparr>,
      ''exponent'' \<mapsto> \<lparr>options =
        [Sequence [Terminal (CharClass ''eE''), Quantified (RuleRef ''sign'') ZERO_OR_ONE,
                   RuleRef ''digit_sequence'']]\<rparr>,
      ''sign'' \<mapsto> \<lparr>options = [Terminal (CharClass ''+-'')]\<rparr>,
      ''digit_sequence'' \<mapsto> \<lparr>options =
        [RuleRef ''digit'', Sequence [RuleRef ''digit'', RuleRef ''digit_sequence'']]\<rparr>,
      ''digit'' \<mapsto> \<lparr>options = [Terminal (CharClass ''0123456789'')]\<rparr>,
      ''wsp'' \<mapsto> \<lparr>options =
        [Terminal (CharClass '' ''), Terminal (CharClass [CHR 0x09]),
         Terminal (CharClass [CHR 0x0A])]\<rparr>]"

definition SVGPolygonPointsGrammar :: Grammar where
  "SVGPolygonPointsGrammar = \<lparr>entry = ''list_of_points'', map = SVGPolygonPointsGrammarMap\<rparr>"

section \<open>Properties\<close>

subsection \<open>Auxiliary facts about the loops\<close>

lemma ZERO_OR_MORE_loop_not_Failure:
  "ZERO_OR_MORE_loop n s tt tv gm ci results lci \<noteq> Some Failure"
  by (induction n arbitrary: results lci) (auto split: option.splits outcome.splits)

lemma ONE_OR_MORE_loop_not_Failure:
  "results \<noteq> [] \<Longrightarrow> ONE_OR_MORE_loop n s tt tv gm ci results lci \<noteq> Some Failure"
  by (induction n arbitrary: results lci) (auto split: option.splits outcome.splits)


lemma ZERO_OR_MORE_loop_never_ends:
  assumes "\<forall>n ci'. processTokenValidator n s tt tv gm ci' \<noteq> Some Failure
             \<and> (\<forall>e. processTokenValidator n s tt tv gm ci' \<noteq> Some (Throws e))"
  shows "ZERO_OR_MORE_loop n s tt tv gm ci results lci = None"
proof (induction n arbitrary: results lci)
  case 0
  show ?case by simp
next
  case (Suc n)
  show ?case
  proof (cases "processTokenValidator n s tt tv gm lci")
    case None
    then show ?thesis by simp
  next
    case (Some out)
    with assms obtain a where "out = Success a"
      by (cases out) auto
    with Some Suc.IH show ?thesis by simp
  qed
qed

lemma ONE_OR_MORE_loop_never_ends:
  assumes "\<forall>n ci'. processTokenValidator n s tt tv gm ci' \<noteq> Some Failure
             \<and> (\<forall>e. processTokenValidator n s tt tv gm ci' \<noteq> Some (Throws e))"
  shows "ONE_OR_MORE_loop n s tt tv gm ci results lci = None"
proof (induction n arbitrary: results lci)
  case 0
  show ?case by simp
next
  case (Suc n)
  show ?case
  proof (cases "processTokenValidator n s tt tv gm lci")
    case None
    then show ?thesis by simp
  next
    case (Some out)
    with assms obtain a where "out = Success a"
      by (cases out) auto
    with Some Suc.IH show ?thesis by simp
  qed
qed

lemma empty_sequence_always_matches:
  "processTokenValidator n s tt (Sequence []) gm ci \<noteq> Some Failure
   \<and> (\<forall>e. processTokenValidator n s tt (Sequence []) gm ci \<noteq> Some (Throws e))"
  by (cases n) simp_all

lemma options_loop_skips_failures:
  "\<forall>a\<in>set pre. processTokenValidator n s (Name name) a gm ci = Some Failure \<Longrightarrow>
     options_loop n s name (pre @ rest) gm ci = options_loop n s name rest gm ci"
  by (induction pre) simp_all

text \<open>More fuel never changes a result: a call that has returned with \<open>n\<close> units returns
  the same with \<open>Suc n\<close>, hence with any larger amount. So \<open>None\<close> for every amount of
  fuel means that the call does not return.\<close>

lemma fuel_step:
  "(\<forall>r. processTokenValidator n s tt tv gm ci = Some r
        \<longrightarrow> processTokenValidator (Suc n) s tt tv gm ci = Some r)"
  "(\<forall>r. sequence_loop n s tt ts gm ci acc = Some r
        \<longrightarrow> sequence_loop (Suc n) s tt ts gm ci acc = Some r)"
  "(\<forall>r. options_loop n s name ts gm ci = Some r
        \<longrightarrow> options_loop (Suc n) s name ts gm ci = Some r)"
  "(\<forall>r. TOKEN_VALIDATOR_OPTION_PROCESSORS n opt s tt tv gm ci = Some r
        \<longrightarrow> TOKEN_VALIDATOR_OPTION_PROCESSORS (Suc n) opt s tt tv gm ci = Some r)"
  "(\<forall>r. ZERO_OR_MORE_loop n s tt tv gm ci results lci = Some r
        \<longrightarrow> ZERO_OR_MORE_loop (Suc n) s tt tv gm ci results lci = Some r)"
  "(\<forall>r. ONE_OR_MORE_loop n s tt tv gm ci results lci = Some r
        \<longrightarrow> ONE_OR_MORE_loop (Suc n) s tt tv gm ci results lci = Some r)"
  "(\<forall>r. ZERO_OR_ONE_processor n s tt tv gm ci = Some r
        \<longrightarrow> ZERO_OR_ONE_processor (Suc n) s tt tv gm ci = Some r)"
proof (induction n s tt tv gm ci and n s tt ts gm ci acc and n s name ts gm ci
         and n opt s tt tv gm ci and n s tt tv gm ci results lci
         and n s tt tv gm ci results lci and n s tt tv gm ci
       rule: processTokenValidator_sequence_loop_options_loop_TOKEN_VALIDATOR_OPTION_PROCESSORS_ZERO_OR_MORE_loop_ONE_OR_MORE_loop_ZERO_OR_ONE_processor.induct)
  case (4 n syntaxString tt t option grammarMap currentIndex)
  then show ?case by (auto split: option.splits outcome.splits)
next
  case (5 n syntaxString tt name grammarMap currentIndex)
  then show ?case by (auto split: option.splits)
next
  case (7 n syntaxString tt t ts grammarMap currentIndex resultList)
  then show ?case by (auto split: option.splits outcome.splits)
next
  case (9 n syntaxString name t ts grammarMap currentIndex)
  then show ?case by (auto split: option.splits outcome.splits)
next
  case (14 n syntaxString tt tv grammarMap currentIndex results latestCurrentIndex)
  then show ?case by (auto split: option.splits outcome.splits)
next
  case (16 n syntaxString tt tv grammarMap currentIndex results latestCurrentIndex)
  then show ?case by (auto split: option.splits outcome.splits)
next
  case (17 n syntaxString tt tv grammarMap currentIndex)
  then show ?case by (auto split: option.splits outcome.splits)
qed simp_all

lemma processTokenValidator_fuel_mono:
  "n \<le> m \<Longrightarrow> processTokenValidator n s tt tv gm ci = Some r \<Longrightarrow>
     processTokenValidator m s tt tv gm ci = Some r"
  by (induction rule: dec_induct) (simp_all add: fuel_step)

lemma parseSyntaxString_fuel_mono:
  "n \<le> m \<Longrightarrow> parseSyntaxString n s g = Some r \<Longrightarrow> parseSyntaxString m s g = Some r"
  by (simp add: parseSyntaxString_def processTokenValidator_fuel_mono)

subsection \<open>The kind of an outcome does not depend on the input or the cursor\<close>

text \<open>No branch of \<open>processTokenValidator\<close> reads the input: the only one that would,
  the terminal, always fails. So whether a call returns, throws, fails or matches depends
  on the fuel, the validator and the grammar map alone.\<close>

lemma same_kind_cases:
  assumes "kind_of x = kind_of y"
  obtains (pending) "x = None" "y = None"
    | (thrown) e where "x = Some (Throws e)" "y = Some (Throws e)"
    | (failed) "x = Some Failure" "y = Some Failure"
    | (matched) a b where "x = Some (Success a)" "y = Some (Success b)"
  using assms by (cases x rule: kind_of.cases; cases y rule: kind_of.cases; simp)

lemma sequence_loop_kind:
  assumes H: "\<And>t s tt ci s' tt' ci'.
                kind_of (processTokenValidator n s tt t gm ci)
                  = kind_of (processTokenValidator n s' tt' t gm ci')"
  shows "kind_of (sequence_loop n s tt ts gm ci acc)
           = kind_of (sequence_loop n s' tt' ts gm ci' acc')"
proof (induction ts arbitrary: acc acc')
  case Nil
  show ?case by simp
next
  case (Cons t ts)
  have "kind_of (processTokenValidator n s tt t gm ci)
          = kind_of (processTokenValidator n s' tt' t gm ci')"
    by (rule H)
  then show ?case
  proof (cases rule: same_kind_cases)
    case (matched a b)
    with Cons.IH [of "acc @ [a]" "acc' @ [b]"] show ?thesis by simp
  qed simp_all
qed

lemma options_loop_kind:
  assumes H: "\<And>t s tt ci s' tt' ci'.
                kind_of (processTokenValidator n s tt t gm ci)
                  = kind_of (processTokenValidator n s' tt' t gm ci')"
  shows "kind_of (options_loop n s name ts gm ci)
           = kind_of (options_loop n s' name' ts gm ci')"
proof (induction ts)
  case Nil
  show ?case by simp
next
  case (Cons t ts)
  have "kind_of (processTokenValidator n s (Name name) t gm ci)
          = kind_of (processTokenValidator n s' (Name name') t gm ci')"
    by (rule H)
  then show ?case
  proof (cases rule: same_kind_cases)
    case failed
    with Cons.IH show ?thesis by simp
  qed simp_all
qed

lemma ZERO_OR_MORE_loop_kind:
  "(\<And>k s tt ci s' tt' ci'. k < n \<Longrightarrow>
       kind_of (processTokenValidator k s tt tv gm ci)
         = kind_of (processTokenValidator k s' tt' tv gm ci')) \<Longrightarrow>
   (results = [] \<longleftrightarrow> results' = []) \<Longrightarrow>
   kind_of (ZERO_OR_MORE_loop n s tt tv gm ci results lci)
     = kind_of (ZERO_OR_MORE_loop n s' tt' tv gm ci' results' lci')"
proof (induction n arbitrary: results results' lci lci')
  case 0
  show ?case by simp
next
  case (Suc n)
  have "kind_of (processTokenValidator n s tt tv gm lci)
          = kind_of (processTokenValidator n s' tt' tv gm lci')"
    by (rule Suc.prems(1)) simp
  then show ?case
  proof (cases rule: same_kind_cases)
    case (matched a b)
    have "kind_of (ZERO_OR_MORE_loop n s tt tv gm ci (results @ [a])
                     (js_plus (endIndex a) (Num 1)))
            = kind_of (ZERO_OR_MORE_loop n s' tt' tv gm ci' (results' @ [b])
                         (js_plus (endIndex b) (Num 1)))"
      by (rule Suc.IH) (simp_all add: Suc.prems(1))
    with matched show ?thesis by simp
  next
    case failed
    with Suc.prems(2) show ?thesis by simp
  qed simp_all
qed

lemma ONE_OR_MORE_loop_kind:
  "(\<And>k s tt ci s' tt' ci'. k < n \<Longrightarrow>
       kind_of (processTokenValidator k s tt tv gm ci)
         = kind_of (processTokenValidator k s' tt' tv gm ci')) \<Longrightarrow>
   (results = [] \<longleftrightarrow> results' = []) \<Longrightarrow>
   kind_of (ONE_OR_MORE_loop n s tt tv gm ci results lci)
     = kind_of (ONE_OR_MORE_loop n s' tt' tv gm ci' results' lci')"
proof (induction n arbitrary: results results' lci lci')
  case 0
  show ?case by simp
next
  case (Suc n)
  have "kind_of (processTokenValidator n s tt tv gm lci)
          = kind_of (processTokenValidator n s' tt' tv gm lci')"
    by (rule Suc.prems(1)) simp
  then show ?case
  proof (cases rule: same_kind_cases)
    case (matched a b)
    have "kind_of (ONE_OR_MORE_loop n s tt tv gm ci (results @ [a])
                     (js_plus (endIndex a) (Num 1)))
            = kind_of (ONE_OR_MORE_loop n s' tt' tv gm ci' (results' @ [b])
                         (js_plus (endIndex b) (Num 1)))"
      by (rule Suc.IH) (simp_all add: Suc.prems(1))
    with matched show ?thesis by simp
  next
    case failed
    with Suc.prems(2) show ?thesis by simp
  qed simp_all
qed

lemma ZERO_OR_ONE_processor_kind:
  assumes H: "\<And>s tt ci s' tt' ci'.
                kind_of (processTokenValidator n s tt tv gm ci)
                  = kind_of (processTokenValidator n s' tt' tv gm ci')"
  shows "kind_of (ZERO_OR_ONE_processor n s tt tv gm ci)
           = kind_of (ZERO_OR_ONE_processor n s' tt' tv gm ci')"
proof -
  have "kind_of (processTokenValidator n s tt tv gm ci)
          = kind_of (processTokenValidator n s' tt' tv gm ci')"
    by (rule H)
  then show ?thesis
  proof (cases rule: same_kind_cases)
    case (matched a b)
    have "kind_of (processTokenValidator n s tt tv gm (js_plus (endIndex a) (Num 1)))
            = kind_of (processTokenValidator n s' tt' tv gm (js_plus (endIndex b) (Num 1)))"
      by (rule H)
    then show ?thesis
      using matched by (cases rule: same_kind_cases) simp_all
  qed simp_all
qed

lemma TOKEN_VALIDATOR_OPTION_PROCESSORS_kind:
  assumes H: "\<And>k s tt ci s' tt' ci'. k \<le> n \<Longrightarrow>
                kind_of (processTokenValidator k s tt tv gm ci)
                  = kind_of (processTokenValidator k s' tt' tv gm ci')"
  shows "kind_of (TOKEN_VALIDATOR_OPTION_PROCESSORS n option s tt tv gm ci)
           = kind_of (TOKEN_VALIDATOR_OPTION_PROCESSORS n option s' tt' tv gm ci')"
proof (cases option)
  case ZERO_OR_MORE
  have "kind_of (ZERO_OR_MORE_loop n s tt tv gm ci [] ci)
          = kind_of (ZERO_OR_MORE_loop n s' tt' tv gm ci' [] ci')"
    by (rule ZERO_OR_MORE_loop_kind) (simp_all add: H)
  with ZERO_OR_MORE show ?thesis by simp
next
  case ONE_OR_MORE
  have "kind_of (ONE_OR_MORE_loop n s tt tv gm ci [] ci)
          = kind_of (ONE_OR_MORE_loop n s' tt' tv gm ci' [] ci')"
    by (rule ONE_OR_MORE_loop_kind) (simp_all add: H)
  with ONE_OR_MORE show ?thesis by simp
next
  case ZERO_OR_ONE
  have "kind_of (ZERO_OR_ONE_processor n s tt tv gm ci)
          = kind_of (ZERO_OR_ONE_processor n s' tt' tv gm ci')"
    by (rule ZERO_OR_ONE_processor_kind) (simp add: H)
  with ZERO_OR_ONE show ?thesis
    by (simp only: TOKEN_VALIDATOR_OPTION_PROCESSORS.simps)
qed

lemma outcome_kind_independent:
  "kind_of (processTokenValidator n s tt tv gm ci)
     = kind_of (processTokenValidator n s' tt' tv gm ci')"
proof (induction n arbitrary: s tt tv gm ci s' tt' ci' rule: less_induct)
  case (less n)
  show ?case
  proof (cases n)
    case 0
    then show ?thesis by simp
  next
    case (Suc m)
    show ?thesis
    proof (cases tv)
      case (RuleRef name)
      have loop: "kind_of (options_loop m s name ts gm ci)
              = kind_of (options_loop m s' name ts gm ci')" for ts
        by (rule options_loop_kind) (rule less.IH, simp add: Suc)
      show ?thesis
      proof (cases gm)
        case None
        with Suc RuleRef show ?thesis by simp
      next
        case (Some g)
        with Suc RuleRef loop show ?thesis
          by (cases "g name") simp_all
      qed
    next
      case (Terminal re)
      with Suc show ?thesis by simp
    next
      case (Quantified t option)
      have "kind_of (TOKEN_VALIDATOR_OPTION_PROCESSORS m option s (Index ci) t None Undefined)
              = kind_of (TOKEN_VALIDATOR_OPTION_PROCESSORS m option s' (Index ci') t None
                           Undefined)"
        by (rule TOKEN_VALIDATOR_OPTION_PROCESSORS_kind) (rule less.IH, simp add: Suc)
      then show ?thesis
        using Suc Quantified by (cases rule: same_kind_cases) simp_all
    next
      case (Sequence ts)
      have "kind_of (sequence_loop m s tt ts gm ci [])
              = kind_of (sequence_loop m s' tt' ts gm ci' [])"
        by (rule sequence_loop_kind) (rule less.IH, simp add: Suc)
      with Suc Sequence show ?thesis by simp
    qed
  qed
qed




lemma second_attempt_matches:
  assumes "processTokenValidator n s tt tv gm ci = Some (Success a)"
  shows "\<exists>b. processTokenValidator n s tt tv gm ci' = Some (Success b)"
proof -
  have "kind_of (processTokenValidator n s tt tv gm ci)
          = kind_of (processTokenValidator n s tt tv gm ci')"
    by (rule outcome_kind_independent)
  then show ?thesis
    using assms by (cases rule: same_kind_cases) simp_all
qed

subsection \<open>Shape of the results\<close>

text \<open>A sequence succeeds exactly when every member succeeds at the sequence's own
  cursor, and its result is the list of the members' results; a successful quantified
  validator always yields a node that ends at \<^verbatim>\<open>NaN\<close> and has no value.\<close>

lemma sequence_loop_results:
  "sequence_loop n s tt ts gm ci acc = Some (Success r) \<longleftrightarrow>
     (\<exists>rs. r = ResultList (acc @ rs)
        \<and> list_all2 (\<lambda>t x. processTokenValidator n s tt t gm ci = Some (Success x)) ts rs)"
proof (induction ts arbitrary: acc)
  case Nil
  show ?case by auto
next
  case (Cons t ts)
  show ?case
  proof (cases "processTokenValidator n s tt t gm ci")
    case None
    then show ?thesis by (auto simp: list_all2_Cons1)
  next
    case (Some out)
    show ?thesis
    proof (cases out)
      case (Throws e)
      with Some show ?thesis by (auto simp: list_all2_Cons1)
    next
      case Failure
      with Some show ?thesis by (auto simp: list_all2_Cons1)
    next
      case (Success x)
      with Some Cons.IH [of "acc @ [x]"] show ?thesis
        by (auto simp: list_all2_Cons1)
    qed
  qed
qed

lemma sequence_result:
  "processTokenValidator (Suc n) s tt (Sequence ts) gm ci = Some (Success r) \<longleftrightarrow>
     (\<exists>rs. r = ResultList rs
        \<and> list_all2 (\<lambda>t x. processTokenValidator n s tt t gm ci = Some (Success x)) ts rs)"
  by (simp add: sequence_loop_results)

lemma quantified_result:
  "processTokenValidator n s tt (Quantified t option) gm ci = Some (Success r) \<Longrightarrow>
     r = Node ci NaN tt NoValue"
  by (cases n) (auto simp: newCurrentIndex_def consumedString_def
                     split: option.splits outcome.splits)

subsection \<open>Sequences\<close>

text \<open>
  Claim C1. A sequence should match each member where the previous member ended and
  return one node whose value is the list of the members' nodes. The array branch passes
  the same \<^verbatim>\<open>currentIndex\<close> to every member (the source marks the missing step with
  \<^verbatim>\<open>TODO: Increment the currentIndex\<close>) and returns the bare list of results. On the
  input \<^verbatim>\<open>"ab"\<close>, with a rule that is a sequence of an optional \<^verbatim>\<open>a\<close> and an optional
  \<^verbatim>\<open>b\<close>, both members are matched at index 0 and the result is a two-element array, not
  a node. (Lemma \<open>sequence_result\<close> gives the general form.)
\<close>

theorem sequence_members_share_cursor:
  "parseSyntaxString 5 ''ab'' two_optionals =
     Some (Success (ResultList
       [Node (Num 0) NaN (Name ''r'') NoValue, Node (Num 0) NaN (Name ''r'') NoValue]))"
  by code_simp

subsection \<open>Terminals\<close>

text \<open>
  Claim C2. A terminal should match exactly when its pattern matches at the cursor, and
  yield a node spanning the consumed text. \<^verbatim>\<open>processTokenValidator\<close> calls
  \<^verbatim>\<open>PROCESS_REGEX(syntaxString, tokenType, currentIndex, tokenValidator)\<close>, so the
  index arrives where the pattern is expected and the \<^verbatim>\<open>instanceof RegExp\<close> test is
  false: a terminal fails on every input, at every cursor, and the parse of \<^verbatim>\<open>"a"\<close>
  against the rule \<^verbatim>\<open>/[a]/\<close> returns \<^verbatim>\<open>false\<close>. Called with its own parameter order,
  \<^verbatim>\<open>PROCESS_REGEX\<close> is not anchored either: on \<^verbatim>\<open>"xxa"\<close> at index 0 the class
  \<^verbatim>\<open>[a]\<close> matches the \<^verbatim>\<open>a\<close> at index 2 and the node claims the span 0..0.
\<close>

theorem terminal_never_matches:
  "processTokenValidator (Suc n) syntaxString tt (Terminal re) grammarMap currentIndex
     = Some Failure
   \<and> parseSyntaxString (Suc (Suc n)) ''a'' one_terminal = Some Failure
   \<and> PROCESS_REGEX ''xxa'' (Name ''r'') (ArgValidator (Terminal (CharClass ''a''))) grammarMap
         (Num 0)
       = Some (Node (Num 0) (Num 0) (Name ''r'') (Text ''a''))"
  by (simp add: parseSyntaxString_def one_terminal_def)

subsection \<open>Zero or one\<close>




subsection \<open>Zero or more, one or more\<close>

text \<open>
  Claim C4, as amended. The zero-or-more processor never returns \<^verbatim>\<open>false\<close>, and it
  returns a success when the inner validator fails on the first attempt; it does not
  return a success for every inner validator, since its loop ends only at an attempt that
  fails. The one-or-more processor returns \<^verbatim>\<open>false\<close> if and only if the inner validator
  fails on the very first attempt.
\<close>

theorem zero_or_more_never_fails:
  "TOKEN_VALIDATOR_OPTION_PROCESSORS n ZERO_OR_MORE syntaxString tt tv grammarMap currentIndex
     \<noteq> Some Failure
   \<and> (processTokenValidator n syntaxString tt tv grammarMap currentIndex = Some Failure
        \<longrightarrow> (\<exists>node. TOKEN_VALIDATOR_OPTION_PROCESSORS (Suc n) ZERO_OR_MORE syntaxString tt tv
                       grammarMap currentIndex
                     = Some (Success node)))
   \<and> (TOKEN_VALIDATOR_OPTION_PROCESSORS (Suc n) ONE_OR_MORE syntaxString tt tv grammarMap
         currentIndex = Some Failure
        \<longleftrightarrow> processTokenValidator n syntaxString tt tv grammarMap currentIndex = Some Failure)"
proof (intro conjI)
  show "TOKEN_VALIDATOR_OPTION_PROCESSORS n ZERO_OR_MORE syntaxString tt tv grammarMap
          currentIndex \<noteq> Some Failure"
    by (simp add: ZERO_OR_MORE_loop_not_Failure)
next
  show "processTokenValidator n syntaxString tt tv grammarMap currentIndex = Some Failure
        \<longrightarrow> (\<exists>node. TOKEN_VALIDATOR_OPTION_PROCESSORS (Suc n) ZERO_OR_MORE syntaxString tt tv
                       grammarMap currentIndex
                     = Some (Success node))"
    by simp
next
  show "TOKEN_VALIDATOR_OPTION_PROCESSORS (Suc n) ONE_OR_MORE syntaxString tt tv grammarMap
          currentIndex = Some Failure
        \<longleftrightarrow> processTokenValidator n syntaxString tt tv grammarMap currentIndex = Some Failure"
  proof
    assume fails: "TOKEN_VALIDATOR_OPTION_PROCESSORS (Suc n) ONE_OR_MORE syntaxString tt tv
                     grammarMap currentIndex = Some Failure"
    show "processTokenValidator n syntaxString tt tv grammarMap currentIndex = Some Failure"
    proof (cases "processTokenValidator n syntaxString tt tv grammarMap currentIndex")
      case None
      with fails show ?thesis by simp
    next
      case (Some out)
      show ?thesis
      proof (cases out)
        case (Throws e)
        with Some fails show ?thesis by simp
      next
        case Failure
        with Some show ?thesis by simp
      next
        case (Success a)
        with Some fails
        have "ONE_OR_MORE_loop n syntaxString tt tv grammarMap currentIndex [a]
                (js_plus (endIndex a) (Num 1)) = Some Failure"
          by simp
        moreover have "ONE_OR_MORE_loop n syntaxString tt tv grammarMap currentIndex [a]
                (js_plus (endIndex a) (Num 1)) \<noteq> Some Failure"
          by (rule ONE_OR_MORE_loop_not_Failure) simp
        ultimately show ?thesis by simp
      qed
    qed
  next
    assume "processTokenValidator n syntaxString tt tv grammarMap currentIndex = Some Failure"
    then show "TOKEN_VALIDATOR_OPTION_PROCESSORS (Suc n) ONE_OR_MORE syntaxString tt tv
                 grammarMap currentIndex = Some Failure"
      by simp
  qed
qed

theorem zero_or_more_never_fails_witness:
  "processTokenValidator 1 ''x'' (Name ''r'') (Terminal (CharClass ''a''))
     (Some (map one_terminal)) (Num 0) = Some Failure
   \<and> (\<exists>node. TOKEN_VALIDATOR_OPTION_PROCESSORS (Suc 1) ZERO_OR_MORE ''x'' (Name ''r'')
                (Terminal (CharClass ''a'')) (Some (map one_terminal)) (Num 0)
              = Some (Success node))
   \<and> TOKEN_VALIDATOR_OPTION_PROCESSORS (Suc 1) ONE_OR_MORE ''x'' (Name ''r'')
         (Terminal (CharClass ''a'')) (Some (map one_terminal)) (Num 0)
       = Some Failure"
proof -
  have h: "processTokenValidator 1 ''x'' (Name ''r'') (Terminal (CharClass ''a''))
             (Some (map one_terminal)) (Num 0) = Some Failure"
    by simp
  from zero_or_more_never_fails
         [of 1 "''x''" "Name ''r''" "Terminal (CharClass ''a'')" "Some (map one_terminal)"
            "Num 0"] h
  show ?thesis by blast
qed

text \<open>The claim as stated, that zero-or-more returns a success for every inner validator,
  is false for the empty sequence: every attempt matches, and the processor has not
  returned whatever fuel it is given.\<close>

theorem zero_or_more_counterexample:
  "\<forall>n. TOKEN_VALIDATOR_OPTION_PROCESSORS n ZERO_OR_MORE ''x'' (Name ''r'') (Sequence [])
          (Some (map one_terminal)) (Num 0) = None"
  by (simp add: ZERO_OR_MORE_loop_never_ends empty_sequence_always_matches)

text \<open>
  Claim C5, as amended. When the inner validator fails on the first attempt, the
  zero-or-more processor succeeds with a node whose value is the empty string (not an
  empty list) and whose \<^verbatim>\<open>startIndex\<close> and \<^verbatim>\<open>endIndex\<close> are both the cursor it was
  given (\<^verbatim>\<open>endIndex = startIndex\<close>, not \<^verbatim>\<open>startIndex - 1\<close>).
\<close>

theorem zero_or_more_empty_result:
  "processTokenValidator n syntaxString tt tv grammarMap currentIndex = Some Failure \<Longrightarrow>
   TOKEN_VALIDATOR_OPTION_PROCESSORS (Suc n) ZERO_OR_MORE syntaxString tt tv grammarMap
     currentIndex
     = Some (Success (Node currentIndex currentIndex tt (Text '''')))"
  by simp

theorem zero_or_more_empty_result_witness:
  "processTokenValidator 1 ''x'' (Name ''r'') (Terminal (CharClass ''a''))
     (Some (map one_terminal)) (Num 7) = Some Failure
   \<and> TOKEN_VALIDATOR_OPTION_PROCESSORS (Suc 1) ZERO_OR_MORE ''x'' (Name ''r'')
         (Terminal (CharClass ''a'')) (Some (map one_terminal)) (Num 7)
       = Some (Success (Node (Num 7) (Num 7) (Name ''r'') (Text '''')))"
proof -
  have h: "processTokenValidator 1 ''x'' (Name ''r'') (Terminal (CharClass ''a''))
             (Some (map one_terminal)) (Num 7) = Some Failure"
    by simp
  from zero_or_more_empty_result [OF h] h show ?thesis by blast
qed

text \<open>The claim as stated fails at cursor 0 on the input \<^verbatim>\<open>"x"\<close> with inner validator
  \<^verbatim>\<open>/[a]/\<close>: the node ends at 0, not at -1, and its value is a string, not a list.\<close>

theorem zero_or_more_empty_result_counterexample:
  "TOKEN_VALIDATOR_OPTION_PROCESSORS (Suc 1) ZERO_OR_MORE ''x'' (Name ''r'')
     (Terminal (CharClass ''a'')) (Some (map one_terminal)) (Num 0)
     = Some (Success (Node (Num 0) (Num 0) (Name ''r'') (Text '''')))
   \<and> Num 0 \<noteq> js_minus (Num 0) (Num 1)
   \<and> (Text '''' :: AST astValue) \<noteq> Children []"
  by simp

subsection \<open>Rule references\<close>

text \<open>
  Claim C6, as amended. A rule reference tries the referenced rule's alternatives in
  listed order at the same cursor, each with the referenced rule's name as its tag, and
  returns the first success unchanged (later alternatives are not tried); when every
  alternative fails it returns \<^verbatim>\<open>false\<close>. No tag is rewritten on the way out: a node
  built by a quantified alternative carries the referenced rule's name, and a result that
  comes from an alternative that is itself a rule reference keeps the inner rule's tag.
\<close>

theorem rule_ref_first_match_wins:
  assumes "grammarMap name = Some d"
  shows
    "((\<forall>a\<in>set (options d).
         processTokenValidator n syntaxString (Name name) a (Some grammarMap) currentIndex
           = Some Failure)
      \<longrightarrow> processTokenValidator (Suc n) syntaxString tt (RuleRef name) (Some grammarMap)
            currentIndex = Some Failure)
     \<and> (\<forall>pre t post result.
           options d = pre @ t # post
           \<and> (\<forall>a\<in>set pre.
                 processTokenValidator n syntaxString (Name name) a (Some grammarMap)
                   currentIndex = Some Failure)
           \<and> processTokenValidator n syntaxString (Name name) t (Some grammarMap) currentIndex
               = Some (Success result)
           \<longrightarrow> processTokenValidator (Suc n) syntaxString tt (RuleRef name) (Some grammarMap)
                 currentIndex = Some (Success result)
               \<and> ((\<exists>inner option. t = Quantified inner option)
                    \<longrightarrow> (\<exists>e v. result = Node currentIndex e (Name name) v)))"
proof (intro conjI allI impI)
  assume "\<forall>a\<in>set (options d).
            processTokenValidator n syntaxString (Name name) a (Some grammarMap) currentIndex
              = Some Failure"
  then have "options_loop n syntaxString name (options d @ []) (Some grammarMap) currentIndex
               = options_loop n syntaxString name [] (Some grammarMap) currentIndex"
    by (rule options_loop_skips_failures)
  with assms
  show "processTokenValidator (Suc n) syntaxString tt (RuleRef name) (Some grammarMap)
          currentIndex = Some Failure"
    by simp
next
  fix pre t post result
  assume h: "options d = pre @ t # post
           \<and> (\<forall>a\<in>set pre.
                 processTokenValidator n syntaxString (Name name) a (Some grammarMap)
                   currentIndex = Some Failure)
           \<and> processTokenValidator n syntaxString (Name name) t (Some grammarMap) currentIndex
               = Some (Success result)"
  then have "options_loop n syntaxString name (pre @ t # post) (Some grammarMap) currentIndex
               = options_loop n syntaxString name (t # post) (Some grammarMap) currentIndex"
    by (intro options_loop_skips_failures) blast
  with assms h
  show "processTokenValidator (Suc n) syntaxString tt (RuleRef name) (Some grammarMap)
          currentIndex = Some (Success result)"
    by simp
next
  fix pre t post result
  assume h: "options d = pre @ t # post
           \<and> (\<forall>a\<in>set pre.
                 processTokenValidator n syntaxString (Name name) a (Some grammarMap)
                   currentIndex = Some Failure)
           \<and> processTokenValidator n syntaxString (Name name) t (Some grammarMap) currentIndex
               = Some (Success result)"
    and "\<exists>inner option. t = Quantified inner option"
  then obtain inner option where t: "t = Quantified inner option"
    by blast
  from h have "processTokenValidator n syntaxString (Name name) t (Some grammarMap) currentIndex
                 = Some (Success result)"
    by blast
  with t show "\<exists>e v. result = Node currentIndex e (Name name) v"
    by (cases n) (auto split: option.splits outcome.splits)
qed

text \<open>On the input \<^verbatim>\<open>"x"\<close>: the rule with alternatives \<^verbatim>\<open>/[a]/\<close>, \<^verbatim>\<open>[]\<close> and
  \<^verbatim>\<open>{ value: /[a]/, option: '?' }\<close> returns the result of the second, though the third
  matches too; the rule whose only alternative is \<^verbatim>\<open>/[a]/\<close> fails; and the node of the
  rule whose alternative is quantified carries the rule's name.\<close>

theorem rule_ref_first_match_wins_witness:
  "processTokenValidator (Suc 2) ''x'' (Name ''r'') (RuleRef ''r'')
     (Some (map three_alternatives)) (Num 0) = Some (Success (ResultList []))
   \<and> processTokenValidator 2 ''x'' (Name ''r'')
         (Quantified (Terminal (CharClass ''a'')) ZERO_OR_ONE) (Some (map three_alternatives))
         (Num 0) = Some (Success (Node (Num 0) NaN (Name ''r'') NoValue))
   \<and> processTokenValidator (Suc 2) ''x'' (Name ''r'') (RuleRef ''r'')
         (Some (map one_terminal)) (Num 0) = Some Failure
   \<and> processTokenValidator (Suc 3) ''x'' (Name ''q'') (RuleRef ''r'')
         (Some (map one_star)) (Num 0) = Some (Success (Node (Num 0) NaN (Name ''r'') NoValue))"
proof -
  let ?third = "Quantified (Terminal (CharClass ''a'')) ZERO_OR_ONE"
  let ?d3 = "\<lparr>options = [Terminal (CharClass ''a''), Sequence [], ?third]\<rparr>"
  let ?star = "Quantified (Terminal (CharClass ''a'')) ZERO_OR_MORE"
  have d3: "map three_alternatives ''r'' = Some ?d3"
    by (simp add: three_alternatives_def)
  have split3: "options ?d3 = [Terminal (CharClass ''a'')] @ Sequence [] # [?third]"
    by simp
  have pre3: "\<forall>a\<in>set [Terminal (CharClass ''a'')].
               processTokenValidator 2 ''x'' (Name ''r'') a (Some (map three_alternatives))
                 (Num 0) = Some Failure"
    by (simp add: numeral_2_eq_2)
  have second: "processTokenValidator 2 ''x'' (Name ''r'') (Sequence [])
                  (Some (map three_alternatives)) (Num 0) = Some (Success (ResultList []))"
    by (simp add: numeral_2_eq_2)
  have third: "processTokenValidator 2 ''x'' (Name ''r'') ?third
                 (Some (map three_alternatives)) (Num 0)
               = Some (Success (Node (Num 0) NaN (Name ''r'') NoValue))"
    by (simp add: numeral_2_eq_2 newCurrentIndex_def consumedString_def)
  from rule_ref_first_match_wins
         [where grammarMap = "map three_alternatives" and name = "''r''" and d = "?d3"
            and n = 2 and syntaxString = "''x''" and currentIndex = "Num 0"
            and tt = "Name ''r''",
          OF d3]
       split3 pre3 second
  have first_wins: "processTokenValidator (Suc 2) ''x'' (Name ''r'') (RuleRef ''r'')
          (Some (map three_alternatives)) (Num 0) = Some (Success (ResultList []))"
    by blast
  have d1: "map one_terminal ''r'' = Some \<lparr>options = [Terminal (CharClass ''a'')]\<rparr>"
    by (simp add: one_terminal_def)
  have all1: "\<forall>a\<in>set (options \<lparr>options = [Terminal (CharClass ''a'')]\<rparr>).
                processTokenValidator 2 ''x'' (Name ''r'') a (Some (map one_terminal)) (Num 0)
                  = Some Failure"
    by (simp add: numeral_2_eq_2)
  from rule_ref_first_match_wins
         [where grammarMap = "map one_terminal" and name = "''r''"
            and d = "\<lparr>options = [Terminal (CharClass ''a'')]\<rparr>"
            and n = 2 and syntaxString = "''x''" and currentIndex = "Num 0"
            and tt = "Name ''r''",
          OF d1]
       all1
  have all_fail: "processTokenValidator (Suc 2) ''x'' (Name ''r'') (RuleRef ''r'')
          (Some (map one_terminal)) (Num 0) = Some Failure"
    by blast
  have ds: "map one_star ''r'' = Some \<lparr>options = [?star]\<rparr>"
    by (simp add: one_star_def)
  have splits: "options \<lparr>options = [?star]\<rparr> = [] @ ?star # []"
    by simp
  have star: "processTokenValidator 3 ''x'' (Name ''r'') ?star (Some (map one_star)) (Num 0)
                = Some (Success (Node (Num 0) NaN (Name ''r'') NoValue))"
    by (simp add: numeral_3_eq_3 newCurrentIndex_def consumedString_def)
  from rule_ref_first_match_wins
         [where grammarMap = "map one_star" and name = "''r''" and d = "\<lparr>options = [?star]\<rparr>"
            and n = 3 and syntaxString = "''x''" and currentIndex = "Num 0"
            and tt = "Name ''q''",
          OF ds]
       splits star
  have tagged: "processTokenValidator (Suc 3) ''x'' (Name ''q'') (RuleRef ''r'')
          (Some (map one_star)) (Num 0) = Some (Success (Node (Num 0) NaN (Name ''r'') NoValue))"
    by (metis empty_iff list.set(1))
  from first_wins third all_fail tagged show ?thesis
    by blast
qed

text \<open>The claim as stated, that the node is tagged with the referenced rule's name, fails
  for the rule \<open>a\<close> whose alternative is the rule \<open>b\<close>: the node carries \<open>b\<close>.\<close>

theorem rule_ref_tag_counterexample:
  "parseSyntaxString 5 '''' chain = Some (Success (Node (Num 0) NaN (Name ''b'') NoValue))"
  by code_simp

subsection \<open>Termination\<close>

text \<open>
  Claim C7, as amended. Not every parse terminates, and the repetition loops do not
  terminate for every inner validator: the loop of the zero-or-more and of the one-or-more
  processor has one exit, an attempt of the inner validator that fails (a thrown error
  leaves it too). It ends at once when the first attempt fails; when no attempt of the inner
  validator ever fails or throws, it never ends, although it consumes neither input nor
  stack.
\<close>

theorem repetition_loop_exit:
  "(processTokenValidator n syntaxString tt tv grammarMap currentIndex = Some Failure
      \<longrightarrow> TOKEN_VALIDATOR_OPTION_PROCESSORS (Suc n) ZERO_OR_MORE syntaxString tt tv grammarMap
            currentIndex \<noteq> None
        \<and> TOKEN_VALIDATOR_OPTION_PROCESSORS (Suc n) ONE_OR_MORE syntaxString tt tv grammarMap
            currentIndex \<noteq> None)
   \<and> ((\<forall>k c. processTokenValidator k syntaxString tt tv grammarMap c \<noteq> Some Failure
               \<and> (\<forall>e. processTokenValidator k syntaxString tt tv grammarMap c
                         \<noteq> Some (Throws e)))
      \<longrightarrow> (\<forall>m. TOKEN_VALIDATOR_OPTION_PROCESSORS m ZERO_OR_MORE syntaxString tt tv grammarMap
                  currentIndex = None
              \<and> TOKEN_VALIDATOR_OPTION_PROCESSORS m ONE_OR_MORE syntaxString tt tv grammarMap
                  currentIndex = None))"
  by (simp add: ZERO_OR_MORE_loop_never_ends ONE_OR_MORE_loop_never_ends)

theorem repetition_loop_exit_witness:
  "(processTokenValidator 1 ''x'' (Name ''r'') (Terminal (CharClass ''a''))
      (Some (map one_terminal)) (Num 0) = Some Failure
    \<and> TOKEN_VALIDATOR_OPTION_PROCESSORS (Suc 1) ZERO_OR_MORE ''x'' (Name ''r'')
          (Terminal (CharClass ''a'')) (Some (map one_terminal)) (Num 0) \<noteq> None
    \<and> TOKEN_VALIDATOR_OPTION_PROCESSORS (Suc 1) ONE_OR_MORE ''x'' (Name ''r'')
          (Terminal (CharClass ''a'')) (Some (map one_terminal)) (Num 0) \<noteq> None)
   \<and> (\<forall>k c. processTokenValidator k ''x'' (Name ''r'') (Sequence [])
               (Some (map one_terminal)) c \<noteq> Some Failure
             \<and> (\<forall>e. processTokenValidator k ''x'' (Name ''r'') (Sequence [])
                       (Some (map one_terminal)) c \<noteq> Some (Throws e)))
   \<and> (\<forall>m. TOKEN_VALIDATOR_OPTION_PROCESSORS m ZERO_OR_MORE ''x'' (Name ''r'') (Sequence [])
             (Some (map one_terminal)) (Num 0) = None
           \<and> TOKEN_VALIDATOR_OPTION_PROCESSORS m ONE_OR_MORE ''x'' (Name ''r'') (Sequence [])
             (Some (map one_terminal)) (Num 0) = None)"
proof -
  let ?gm = "Some (map one_terminal)"
  have h1: "processTokenValidator 1 ''x'' (Name ''r'') (Terminal (CharClass ''a'')) ?gm (Num 0)
              = Some Failure"
    by simp
  have h2: "\<forall>k c. processTokenValidator k ''x'' (Name ''r'') (Sequence []) ?gm c
                    \<noteq> Some Failure
             \<and> (\<forall>e. processTokenValidator k ''x'' (Name ''r'') (Sequence []) ?gm c
                       \<noteq> Some (Throws e))"
    by (simp add: empty_sequence_always_matches)
  from repetition_loop_exit
         [of 1 "''x''" "Name ''r''" "Terminal (CharClass ''a'')" ?gm "Num 0"] h1
  have a: "TOKEN_VALIDATOR_OPTION_PROCESSORS (Suc 1) ZERO_OR_MORE ''x'' (Name ''r'')
             (Terminal (CharClass ''a'')) ?gm (Num 0) \<noteq> None
         \<and> TOKEN_VALIDATOR_OPTION_PROCESSORS (Suc 1) ONE_OR_MORE ''x'' (Name ''r'')
             (Terminal (CharClass ''a'')) ?gm (Num 0) \<noteq> None"
    by blast
  from repetition_loop_exit [of 0 "''x''" "Name ''r''" "Sequence []" ?gm "Num 0"] h2
  have b: "\<forall>m. TOKEN_VALIDATOR_OPTION_PROCESSORS m ZERO_OR_MORE ''x'' (Name ''r'') (Sequence [])
             ?gm (Num 0) = None
           \<and> TOKEN_VALIDATOR_OPTION_PROCESSORS m ONE_OR_MORE ''x'' (Name ''r'') (Sequence [])
             ?gm (Num 0) = None"
    by blast
  from h1 h2 a b show ?thesis by blast
qed

text \<open>The claim as stated, that every parse terminates and never loops without consuming
  stack or input, fails for the grammar whose rule repeats the empty sequence one or more
  times: each attempt of the inner validator returns at once, at the same cursor, and on
  every input and with any amount of fuel the parse has not returned.\<close>

theorem parse_never_returns_counterexample:
  "(\<forall>k tt c. processTokenValidator (Suc k) ''10,20'' tt (Sequence []) None c
               = Some (Success (ResultList [])))
   \<and> (\<forall>n syntaxString. parseSyntaxString n syntaxString repeat_nothing = None)"
proof (intro conjI allI)
  fix k tt c
  show "processTokenValidator (Suc k) ''10,20'' tt (Sequence []) None c
          = Some (Success (ResultList []))"
    by simp
next
  fix n syntaxString
  have loop: "\<And>k tt ci. ONE_OR_MORE_loop k syntaxString tt (Sequence []) None ci [] ci = None"
    by (rule ONE_OR_MORE_loop_never_ends) (simp add: empty_sequence_always_matches)
  show "parseSyntaxString n syntaxString repeat_nothing = None"
  proof (cases n)
    case 0
    then show ?thesis by (simp add: parseSyntaxString_def)
  next
    case (Suc m)
    show ?thesis
    proof (cases m)
      case 0
      with Suc show ?thesis
        by (simp add: parseSyntaxString_def repeat_nothing_def)
    next
      case (Suc k)
      with \<open>n = Suc m\<close> loop show ?thesis
        by (simp add: parseSyntaxString_def repeat_nothing_def)
    qed
  qed
qed

subsection \<open>Spans\<close>

text \<open>
  Claim C8. Every node of a successful match should satisfy
  \<^verbatim>\<open>endIndex >= startIndex - 1\<close>. The quantifier branch of \<^verbatim>\<open>processTokenValidator\<close>
  reads \<^verbatim>\<open>newCurrentIndex\<close> from the processor's result, which has no such property, and
  sets \<^verbatim>\<open>endIndex: newCurrentIndex - 1\<close>, that is \<^verbatim>\<open>NaN\<close>. On the empty input, a rule
  that is a repeated terminal yields a node from 0 to \<^verbatim>\<open>NaN\<close>, and \<^verbatim>\<open>NaN >= -1\<close> is
  false. (Lemma \<open>quantified_result\<close> gives the general form.)
\<close>

theorem span_invariant_broken:
  "parseSyntaxString 4 '''' one_star = Some (Success (Node (Num 0) NaN (Name ''r'') NoValue))
   \<and> \<not> js_ge (endIndex (Node (Num 0) NaN (Name ''r'') NoValue))
            (js_minus (startIndex (Node (Num 0) NaN (Name ''r'') NoValue)) (Num 1))"
  by code_simp

subsection \<open>Undeclared rules\<close>

text \<open>
  Claim C9, as amended. Matching a reference to a rule that is not a key of the grammar's
  map throws a \<open>TypeError\<close> (the error the specification calls UndefinedRuleError),
  unless the name is one that the map object inherits from \<^verbatim>\<open>Object.prototype\<close>
  (\<^verbatim>\<open>toString\<close>, \<^verbatim>\<open>constructor\<close>, ...). The thrown error is not an ordinary
  \<^verbatim>\<open>false\<close> and nothing catches it: the parse entered at such a rule throws, and every
  loop of the engine that reaches the reference (sequence members, alternatives, the three
  quantifier processors) ends with the same error. For an inherited name the lookup
  \<^verbatim>\<open>grammarMap[tokenValidator]\<close> finds the inherited value, \<^verbatim>\<open>options\<close> takes its
  default \<^verbatim>\<open>[]\<close>, and the reference returns an ordinary \<^verbatim>\<open>false\<close>.
\<close>

theorem undeclared_rule_lookup:
  assumes "grammarMap name = None"
  shows
    "(name \<notin> set Object_prototype_properties \<longrightarrow>
        processTokenValidator (Suc n) syntaxString tt (RuleRef name) (Some grammarMap)
          currentIndex = Some (Throws TypeError)
      \<and> parseSyntaxString (Suc n) syntaxString \<lparr>entry = name, map = grammarMap\<rparr>
          = Some (Throws TypeError)
      \<and> sequence_loop (Suc n) syntaxString tt (RuleRef name # ts) (Some grammarMap)
            currentIndex resultList = Some (Throws TypeError)
      \<and> options_loop (Suc n) syntaxString rule (RuleRef name # ts) (Some grammarMap)
            currentIndex = Some (Throws TypeError)
      \<and> (\<forall>option. TOKEN_VALIDATOR_OPTION_PROCESSORS (Suc (Suc n)) option syntaxString tt
                     (RuleRef name) (Some grammarMap) currentIndex
                   = Some (Throws TypeError)))
     \<and> (name \<in> set Object_prototype_properties \<longrightarrow>
        processTokenValidator (Suc n) syntaxString tt (RuleRef name) (Some grammarMap)
          currentIndex = Some Failure
      \<and> parseSyntaxString (Suc n) syntaxString \<lparr>entry = name, map = grammarMap\<rparr>
          = Some Failure)"
proof (intro conjI impI)
  assume own: "name \<notin> set Object_prototype_properties"
  with assms
  show "processTokenValidator (Suc n) syntaxString tt (RuleRef name) (Some grammarMap)
          currentIndex = Some (Throws TypeError)"
    by simp
  from assms own
  show "parseSyntaxString (Suc n) syntaxString \<lparr>entry = name, map = grammarMap\<rparr>
          = Some (Throws TypeError)"
    by (simp add: parseSyntaxString_def)
  from assms own
  show "sequence_loop (Suc n) syntaxString tt (RuleRef name # ts) (Some grammarMap)
          currentIndex resultList = Some (Throws TypeError)"
    by simp
  from assms own
  show "options_loop (Suc n) syntaxString rule (RuleRef name # ts) (Some grammarMap)
          currentIndex = Some (Throws TypeError)"
    by simp
  have "TOKEN_VALIDATOR_OPTION_PROCESSORS (Suc (Suc n)) option syntaxString tt
          (RuleRef name) (Some grammarMap) currentIndex = Some (Throws TypeError)" for option
    using assms own by (cases option) simp_all
  then show "\<forall>option. TOKEN_VALIDATOR_OPTION_PROCESSORS (Suc (Suc n)) option syntaxString tt
                     (RuleRef name) (Some grammarMap) currentIndex
                   = Some (Throws TypeError)"
    by blast
next
  assume inherited: "name \<in> set Object_prototype_properties"
  with assms
  show "processTokenValidator (Suc n) syntaxString tt (RuleRef name) (Some grammarMap)
          currentIndex = Some Failure"
    by simp
  from assms inherited
  show "parseSyntaxString (Suc n) syntaxString \<lparr>entry = name, map = grammarMap\<rparr>
          = Some Failure"
    by (simp add: parseSyntaxString_def)
qed

text \<open>In the grammar whose only rule is \<open>r\<close>: a reference to \<open>digit\<close> throws, a
  reference to \<open>constructor\<close> fails.\<close>

theorem undeclared_rule_lookup_witness:
  "map one_terminal ''digit'' = None
   \<and> ''digit'' \<notin> set Object_prototype_properties
   \<and> processTokenValidator (Suc 0) ''10,20'' (Name ''r'') (RuleRef ''digit'')
       (Some (map one_terminal)) (Num 0) = Some (Throws TypeError)
   \<and> parseSyntaxString (Suc 0) ''10,20'' \<lparr>entry = ''digit'', map = map one_terminal\<rparr>
       = Some (Throws TypeError)
   \<and> map one_terminal ''constructor'' = None
   \<and> ''constructor'' \<in> set Object_prototype_properties
   \<and> processTokenValidator (Suc 0) ''10,20'' (Name ''r'') (RuleRef ''constructor'')
       (Some (map one_terminal)) (Num 0) = Some Failure"
proof -
  have absent: "map one_terminal ''digit'' = None"
    by (simp add: one_terminal_def)
  have own: "''digit'' \<notin> set Object_prototype_properties"
    by (simp add: Object_prototype_properties_def)
  have absent': "map one_terminal ''constructor'' = None"
    by (simp add: one_terminal_def)
  have inherited: "''constructor'' \<in> set Object_prototype_properties"
    by (simp add: Object_prototype_properties_def)
  from undeclared_rule_lookup
         [where grammarMap = "map one_terminal" and name = "''digit''" and n = 0
            and syntaxString = "''10,20''" and tt = "Name ''r''" and currentIndex = "Num 0",
          OF absent] own
  have throws: "processTokenValidator (Suc 0) ''10,20'' (Name ''r'') (RuleRef ''digit'')
                  (Some (map one_terminal)) (Num 0) = Some (Throws TypeError)
     \<and> parseSyntaxString (Suc 0) ''10,20'' \<lparr>entry = ''digit'', map = map one_terminal\<rparr>
         = Some (Throws TypeError)"
    by blast
  from undeclared_rule_lookup
         [where grammarMap = "map one_terminal" and name = "''constructor''" and n = 0
            and syntaxString = "''10,20''" and tt = "Name ''r''" and currentIndex = "Num 0",
          OF absent'] inherited
  have fails: "processTokenValidator (Suc 0) ''10,20'' (Name ''r'') (RuleRef ''constructor'')
                 (Some (map one_terminal)) (Num 0) = Some Failure"
    by blast
  from absent own throws absent' inherited fails show ?thesis
    by blast
qed

text \<open>The claim as stated, that a reference to a rule absent from the map is fatal and
  never an ordinary failure, is false for the name \<open>toString\<close>: the map has no such
  rule, and the parse entered there returns \<^verbatim>\<open>false\<close>.\<close>

theorem inherited_name_counterexample:
  "map one_terminal ''toString'' = None
   \<and> parseSyntaxString 5 ''10,20'' \<lparr>entry = ''toString'', map = map one_terminal\<rparr>
       = Some Failure"
  by code_simp

subsection \<open>Zero or more against one or more\<close>




subsection \<open>Further facts about rule references under a quantifier\<close>

text \<open>
  The quantifier branch calls its processor as
  \<^verbatim>\<open>optionProcessor(syntaxString, currentIndex, t)\<close>: the processor's \<^verbatim>\<open>grammarMap\<close> is
  \<^verbatim>\<open>undefined\<close>. A quantified rule reference therefore throws a \<open>TypeError\<close> whatever
  the grammar declares, at the lookup \<^verbatim>\<open>grammarMap[tokenValidator]\<close>.
\<close>

theorem quantified_rule_reference_throws:
  "processTokenValidator (Suc (Suc (Suc n))) syntaxString tt (Quantified (RuleRef name) option)
     grammarMap currentIndex = Some (Throws TypeError)"
  by (cases option) simp_all

text \<open>
  The first alternative of the entry rule of \<^verbatim>\<open>SVGPolygonPointsGrammar\<close> begins with
  \<^verbatim>\<open>{ value: 'wsp', option: '*' }\<close>: every parse against that grammar throws.
\<close>

theorem SVGPolygonPointsGrammar_parse_throws:
  "parseSyntaxString (Suc (Suc (Suc (Suc (Suc n))))) syntaxString SVGPolygonPointsGrammar
     = Some (Throws TypeError)"
  by (simp add: parseSyntaxString_def SVGPolygonPointsGrammar_def
        SVGPolygonPointsGrammarMap_def)

end
